theory Spec2Isabelle
  imports Main
begin

section \<open>Go values and library functions used by package uri\<close>

text \<open>
  Go strings are byte sequences: \<open>len(s)\<close> counts bytes and \<open>s[i:j]\<close> slices bytes.
  They are modelled as \<^typ>\<open>string\<close>, a list of 8-bit characters.

  A Go \<open>error\<close> result is \<open>None\<close> for \<open>nil\<close> and \<open>Some msg\<close> otherwise. A function of
  the package that can panic at run time returns \<open>panic + result\<close>, with \<open>Inl\<close> the panic.
\<close>

type_synonym goerror = "string option"

datatype panic =
    IndexOutOfRange      \<comment> \<open>index expression on an empty string\<close>
  | ReflectInvalid       \<comment> \<open>method called on the zero \<open>reflect.Value\<close>\<close>
  | ReflectUnexported    \<comment> \<open>\<open>Interface()\<close> on an unexported struct field\<close>
  | NilDereference       \<comment> \<open>field access through a nil pointer\<close>

text \<open>\<open>strings.Split(s, sep)\<close> for a separator of one byte.\<close>

fun Split :: "string \<Rightarrow> char \<Rightarrow> string list" where
  "Split [] c = [[]]"
| "Split (x # xs) c =
     (let r = Split xs c
      in if x = c then [] # r else (x # hd r) # tl r)"

text \<open>\<open>strings.Contains(s, sep)\<close> and \<open>strings.HasSuffix(s, suffix)\<close> for one byte.\<close>

definition Contains :: "string \<Rightarrow> char \<Rightarrow> bool" where
  "Contains s c = (c \<in> set s)"

definition HasSuffix :: "string \<Rightarrow> char \<Rightarrow> bool" where
  "HasSuffix s c = (s \<noteq> [] \<and> last s = c)"

definition byte_in :: "char \<Rightarrow> char \<Rightarrow> char \<Rightarrow> bool" where
  "byte_in lo hi c = ((of_char lo :: nat) \<le> of_char c \<and> (of_char c :: nat) \<le> of_char hi)"

text \<open>
  \<open>strconv.ParseInt(s, 10, 0)\<close>, with \<open>int\<close> of 64 bits. \<open>ParseUint_loop\<close> is the digit
  loop of \<open>strconv.ParseUint\<close> in base 10 on 64 bits: it stops with a syntax error at
  the first byte that is not a decimal digit and with a range error as soon as the
  accumulated value leaves 64 bits.
\<close>

datatype numerror = ErrSyntax | ErrRange

fun ParseUint_loop :: "string \<Rightarrow> nat \<Rightarrow> numerror + nat" where
  "ParseUint_loop [] n = Inr n"
| "ParseUint_loop (c # cs) n =
     (if \<not> byte_in (CHR ''0'') (CHR ''9'') c then Inl ErrSyntax
      else if n \<ge> (2 ^ 64 - 1) div 10 + 1 then Inl ErrRange
      else let n1 = n * 10 + (of_char c - of_char (CHR ''0'')) in
        if n1 > 2 ^ 64 - 1 then Inl ErrRange
        else ParseUint_loop cs n1)"

definition ParseUint :: "string \<Rightarrow> numerror + nat" where
  "ParseUint s = (if s = [] then Inl ErrSyntax else ParseUint_loop s 0)"

definition numerror_msg :: "numerror \<Rightarrow> string" where
  "numerror_msg e = (case e of ErrSyntax \<Rightarrow> ''invalid syntax''
                     | ErrRange \<Rightarrow> ''value out of range'')"

definition ParseInt :: "string \<Rightarrow> int \<times> goerror" where
  "ParseInt s =
     (if s = [] then (0, Some (numerror_msg ErrSyntax))
      else
        let neg = (hd s = CHR ''-'');
            s1 = (if hd s = CHR ''+'' \<or> hd s = CHR ''-'' then tl s else s)
        in case ParseUint s1 of
             Inl ErrSyntax \<Rightarrow> (0, Some (numerror_msg ErrSyntax))
           | Inl ErrRange \<Rightarrow>
               (if neg then (- (2 ^ 63), Some (numerror_msg ErrRange))
                else (2 ^ 63 - 1, Some (numerror_msg ErrRange)))
           | Inr un \<Rightarrow>
               (if \<not> neg \<and> un \<ge> 2 ^ 63 then (2 ^ 63 - 1, Some (numerror_msg ErrRange))
                else if neg \<and> un > 2 ^ 63 then (- (2 ^ 63), Some (numerror_msg ErrRange))
                else (if neg then - int un else int un, None)))"

section \<open>Parsing\<close>

text \<open>
  \<open>validname\<close> is the regular expression
  \<^verbatim>\<open>^([A-Za-z0-9_\.]|%[0-9A-Fa-f][0-9A-Fa-f])+$\<close>: one or more units, each a byte of
  the class or a percent sign followed by two hexadecimal digits. The two alternatives
  start with different bytes, so a match is found by reading the units left to right.
\<close>

definition name_byte :: "char \<Rightarrow> bool" where
  "name_byte c = (byte_in (CHR ''A'') (CHR ''Z'') c \<or> byte_in (CHR ''a'') (CHR ''z'') c
                  \<or> byte_in (CHR ''0'') (CHR ''9'') c \<or> c = CHR ''_'' \<or> c = CHR ''.'')"

definition hex_byte :: "char \<Rightarrow> bool" where
  "hex_byte c = (byte_in (CHR ''0'') (CHR ''9'') c \<or> byte_in (CHR ''A'') (CHR ''F'') c
                 \<or> byte_in (CHR ''a'') (CHR ''f'') c)"

fun name_units :: "string \<Rightarrow> bool" where
  "name_units [] = True"
| "name_units (c # cs) =
     (if name_byte c then name_units cs
      else if c = CHR ''%'' then
        (case cs of h1 # h2 # rest \<Rightarrow> hex_byte h1 \<and> hex_byte h2 \<and> name_units rest
                  | _ \<Rightarrow> False)
      else False)"

definition validname :: "string \<Rightarrow> bool" where
  "validname s = (s \<noteq> [] \<and> name_units s)"

record templateTerm =
  name :: string
  explode :: bool
  truncate' :: int  \<comment> \<open>field \<open>truncate\<close> (the plain name is taken by the record package)\<close>

record templatePart =
  raw :: string
  terms :: "templateTerm list"
  first :: string
  sep :: string
  named :: bool
  ifemp :: string
  allowReserved :: bool

record Template =
  template_raw :: string
  parts :: "templatePart list"

text \<open>The zero values of the two struct types, as \<open>make\<close> and \<open>var\<close> give them.\<close>

definition zero_term :: templateTerm where
  "zero_term = \<lparr>name = [], explode = False, truncate' = 0\<rparr>"

definition zero_part :: templatePart where
  "zero_part = \<lparr>raw = [], terms = [], first = [], sep = [], named = False,
                 ifemp = [], allowReserved = False\<rparr>"

text \<open>
  \<open>parseTerm\<close> returns its result and its error together, as the Go function does:
  the later checks overwrite an earlier error.
\<close>

definition parseTerm :: "string \<Rightarrow> templateTerm \<times> goerror" where
  "parseTerm term0 =
     (let result = zero_term;
          (result, term) = (if HasSuffix term0 (CHR ''*'')
                            then (result\<lparr>explode := True\<rparr>, butlast term0)
                            else (result, term0));
          split = Split term (CHR '':'');
          (result, err) =
            (if length split = 1 then (result\<lparr>name := term\<rparr>, None)
             else if length split = 2 then
               (let (parsed, err) = ParseInt (split ! 1)
                in (result\<lparr>name := split ! 0, truncate' := parsed\<rparr>, err))
             else (result, Some ''multiple colons in same term''));
          err = (if \<not> validname (name result)
                 then Some (''not a valid name: '' @ name result) else err);
          err = (if explode result \<and> truncate' result > 0
                 then Some ''both explode and prefix modifers on same term'' else err)
      in (result, err))"

fun parseTerms_loop ::
  "nat \<Rightarrow> string list \<Rightarrow> templateTerm list \<Rightarrow> templateTerm list \<times> goerror" where
  "parseTerms_loop i [] ts = (ts, None)"
| "parseTerms_loop i (r # rest) ts =
     (let (t, err) = parseTerm r; ts1 = ts[i := t]
      in if err \<noteq> None then (ts1, err) else parseTerms_loop (Suc i) rest ts1)"

text \<open>
  \<open>parseExpression\<close> reads \<open>expression[0]\<close> first, which panics on the empty string.
\<close>

definition parseExpression :: "string \<Rightarrow> panic + (templatePart \<times> goerror)" where
  "parseExpression expression0 =
     (case expression0 of
        [] \<Rightarrow> Inl IndexOutOfRange
      | c # rest \<Rightarrow>
          let result = zero_part;
              (result, expression) =
                (if c = CHR ''+'' then
                   (result\<lparr>sep := '','', allowReserved := True\<rparr>, rest)
                 else if c = CHR ''.'' then
                   (result\<lparr>first := ''.'', sep := ''.''\<rparr>, rest)
                 else if c = CHR ''/'' then
                   (result\<lparr>first := ''/'', sep := ''/''\<rparr>, rest)
                 else if c = CHR '';'' then
                   (result\<lparr>first := '';'', sep := '';'', named := True\<rparr>, rest)
                 else if c = CHR ''?'' then
                   (result\<lparr>first := ''?'', sep := ''&'', named := True, ifemp := ''=''\<rparr>, rest)
                 else if c = CHR ''&'' then
                   (result\<lparr>first := ''&'', sep := ''&'', named := True, ifemp := ''=''\<rparr>, rest)
                 else if c = CHR ''#'' then
                   (result\<lparr>first := ''#'', sep := '','', allowReserved := True\<rparr>, rest)
                 else (result\<lparr>sep := '',''\<rparr>, expression0));
              rawterms = Split expression (CHR '','');
              (ts, err) = parseTerms_loop 0 rawterms (replicate (length rawterms) zero_term)
          in Inr (result\<lparr>terms := ts\<rparr>, err))"

fun Parse_loop ::
  "nat \<Rightarrow> string list \<Rightarrow> templatePart list \<Rightarrow> panic + (templatePart list \<times> goerror)" where
  "Parse_loop i [] ps = Inr (ps, None)"
| "Parse_loop i (s # rest) ps =
     (if i = 0 then
        (if Contains s (CHR ''}'') then Inr (ps, Some ''unexpected }'')
         else Parse_loop (Suc i) rest (ps[i := (ps ! i)\<lparr>raw := s\<rparr>]))
      else
        let subsplit = Split s (CHR ''}'') in
        if length subsplit \<noteq> 2 then Inr (ps, Some ''malformed template'')
        else
          case parseExpression (subsplit ! 0) of
            Inl p \<Rightarrow> Inl p
          | Inr (e, err) \<Rightarrow>
              let ps1 = ps[i * 2 - 1 := e] in
              if err \<noteq> None then Inr (ps1, err)
              else Parse_loop (Suc i) rest (ps1[i * 2 := (ps1 ! (i * 2))\<lparr>raw := subsplit ! 1\<rparr>]))"

text \<open>
  \<open>Parse\<close> returns the pair \<open>(template, err)\<close>; the template pointer is \<open>None\<close> for
  \<open>nil\<close>.
\<close>

definition Parse :: "string \<Rightarrow> panic + (Template option \<times> goerror)" where
  "Parse raw0 =
     (let split = Split raw0 (CHR ''{'');
          ps0 = replicate (length split * 2 - 1) zero_part
      in case Parse_loop 0 split ps0 of
           Inl p \<Rightarrow> Inl p
         | Inr (ps, err) \<Rightarrow>
             let template = Some \<lparr>template_raw = raw0, parts = ps\<rparr>
             in Inr (if err \<noteq> None then None else template, err))"

section \<open>Values of the environment\<close>

text \<open>
  The dynamic values an \<open>interface{}\<close> can hold, as far as the package tells them apart:
  its type switches single out \<open>string\<close>, \<open>[]interface{}\<close> and
  \<open>map[string]interface{}\<close>, and \<open>struct2map\<close> singles out structs and pointers by
  their \<open>reflect.Kind\<close>. A map is kept as the list of its entries in the order in which
  \<open>range\<close> visits them; a Go map has no two entries with the same key. A struct is the
  list of its fields: name, tag, whether the field is exported, and value. \<open>VOther\<close>
  stands for a value of any other type (numbers, booleans, named string types, other
  slice and map types), identified by a description.
\<close>

datatype val =
    VNil
  | VString string
  | VList "val list"
  | VMap "(string \<times> val) list"
  | VStruct "field list"
  | VNilPtr
  | VPtr val
  | VOther string
and field =
    Field (field_name: string) (field_tag: string) (field_exported: bool) (field_value: val)

type_synonym gomap = "(string \<times> val) list"

text \<open>
  Three functions of the Go library that the package calls are parameters of the
  model: \<open>fmt.Sprintf("%v", v)\<close>, \<open>reflect.StructTag(tag).Get("uri")\<close> and
  \<open>strings.TrimSpace\<close>.
\<close>

record golib =
  Sprintf_v :: "val \<Rightarrow> string"
  Tag_Get_uri :: "string \<Rightarrow> string"
  TrimSpace :: "string \<Rightarrow> string"

text \<open>The assignment \<open>m[k] = v\<close> and the lookup \<open>v, exists := m[k]\<close>.\<close>

definition map_store :: "gomap \<Rightarrow> string \<Rightarrow> val \<Rightarrow> gomap" where
  "map_store m k v =
     (if k \<in> fst ` set m then map (\<lambda>(k', v'). if k' = k then (k', v) else (k', v')) m
      else m @ [(k, v)])"

definition map_index :: "gomap \<Rightarrow> string \<Rightarrow> val option" where
  "map_index m k = map_of m k"

section \<open>Reflection: struct2map\<close>

text \<open>
  \<open>reflect.ValueOf(nil)\<close> is the zero \<open>Value\<close>, on which \<open>Type()\<close> panics; \<open>Elem()\<close> of
  a nil pointer is the zero \<open>Value\<close> too, on which \<open>Interface()\<close> panics; and
  \<open>Field(i).Interface()\<close> panics on an unexported field.
\<close>

fun struct2map_fields :: "golib \<Rightarrow> field list \<Rightarrow> gomap \<Rightarrow> panic + gomap" where
  "struct2map_fields L [] m = Inr m"
| "struct2map_fields L (f # fs) m =
     (let tag = field_tag f;
          name = (if Contains tag (CHR '':'') then Tag_Get_uri L tag else TrimSpace L tag);
          name = (if length name = 0 then field_name f else name)
      in if \<not> field_exported f then Inl ReflectUnexported
         else struct2map_fields L fs (map_store m name (field_value f)))"

fun struct2map :: "golib \<Rightarrow> val \<Rightarrow> panic + gomap option" where
  "struct2map L VNil = Inl ReflectInvalid"
| "struct2map L VNilPtr = Inl ReflectInvalid"
| "struct2map L (VPtr v) = struct2map L v"
| "struct2map L (VStruct fs) =
     (case struct2map_fields L fs [] of Inl p \<Rightarrow> Inl p | Inr m \<Rightarrow> Inr (Some m))"
| "struct2map L (VString s) = Inr None"
| "struct2map L (VList a) = Inr None"
| "struct2map L (VMap m) = Inr None"
| "struct2map L (VOther d) = Inr None"

section \<open>Percent-encoding\<close>

definition hex :: string where
  "hex = ''0123456789ABCDEF''"

fun pctEncode :: "string \<Rightarrow> string" where
  "pctEncode [] = []"
| "pctEncode (b # src) =
     [CHR 0x25, hex ! (of_char b div 16), hex ! (of_char b mod 16)] @ pctEncode src"

text \<open>
  The bytes listed inside the brackets of the two regular expressions
  \<^verbatim>\<open>[^A-Za-z0-9\-._~]\<close> and \<^verbatim>\<open>[^A-Za-z0-9\-._~:/?#[\]@!$&'()*+,;=]\<close>; the expressions
  match every character that is not listed.
\<close>

definition unreserved_class :: "char \<Rightarrow> bool" where
  "unreserved_class c =
     (byte_in (CHR ''A'') (CHR ''Z'') c \<or> byte_in (CHR ''a'') (CHR ''z'') c
      \<or> byte_in (CHR ''0'') (CHR ''9'') c
      \<or> c = CHR ''-'' \<or> c = CHR ''.'' \<or> c = CHR ''_'' \<or> c = CHR ''~'')"

definition reserved_class :: "char \<Rightarrow> bool" where
  "reserved_class c =
     (byte_in (CHR ''A'') (CHR ''Z'') c \<or> byte_in (CHR ''a'') (CHR ''z'') c
      \<or> byte_in (CHR ''0'') (CHR ''9'') c
      \<or> c = CHR ''-'' \<or> c = CHR ''.'' \<or> c = CHR ''_'' \<or> c = CHR ''~''
      \<or> c = CHR '':'' \<or> c = CHR ''/'' \<or> c = CHR ''?'' \<or> c = CHR ''#'' \<or> c = CHR ''[''
      \<or> c = CHR '']'' \<or> c = CHR ''@'' \<or> c = CHR ''!'' \<or> c = CHR ''$'' \<or> c = CHR ''&''
      \<or> c = CHR 0x27 \<or> c = CHR ''('' \<or> c = CHR '')'' \<or> c = CHR ''*'' \<or> c = CHR ''+''
      \<or> c = CHR '','' \<or> c = CHR '';'' \<or> c = CHR ''='')"

text \<open>
  The regular expressions run over the UTF-8 characters of the input, not over its
  bytes. \<open>DecodeRune_width\<close> is the number of bytes \<open>utf8.DecodeRune\<close> consumes at the
  head of a non-empty input: the length of a well-formed encoding, and 1 for a byte that
  starts none (which decodes to U+FFFD).
\<close>

definition DecodeRune_width :: "string \<Rightarrow> nat" where
  "DecodeRune_width p =
     (let n = length p; p0 = (of_char (p ! 0) :: nat) in
      if p0 < 0x80 then 1
      else if p0 < 0xC2 \<or> 0xF4 < p0 then 1
      else
        let sz = (if p0 < 0xE0 then 2 else if p0 < 0xF0 then 3 else (4::nat));
            lo = (if p0 = 0xE0 then 0xA0 else if p0 = 0xF0 then 0x90 else (0x80::nat));
            hi = (if p0 = 0xED then 0x9F else if p0 = 0xF4 then 0x8F else (0xBF::nat))
        in if n < sz then 1
           else if of_char (p ! 1) < lo \<or> hi < of_char (p ! 1) then 1
           else if sz \<le> 2 then 2
           else if (of_char (p ! 2) :: nat) < 0x80 \<or> (0xBF::nat) < of_char (p ! 2) then 1
           else if sz \<le> 3 then 3
           else if (of_char (p ! 3) :: nat) < 0x80 \<or> (0xBF::nat) < of_char (p ! 3) then 1
           else 4)"

text \<open>
  \<open>re.ReplaceAllFunc(src, repl)\<close> for a regular expression \<open>re\<close> that matches one
  character outside a class \<open>cls\<close> of ASCII bytes: every match is one character, a
  character of several bytes or an ill-formed byte is never in the class, and \<open>repl\<close>
  receives the bytes of the match.
\<close>

function ReplaceAllFunc :: "(char \<Rightarrow> bool) \<Rightarrow> (string \<Rightarrow> string) \<Rightarrow> string \<Rightarrow> string" where
  "ReplaceAllFunc cls repl src =
     (if src = [] then []
      else if (of_char (hd src) :: nat) < 0x80 \<and> cls (hd src)
        then hd src # ReplaceAllFunc cls repl (tl src)
      else repl (take (DecodeRune_width src) src)
             @ ReplaceAllFunc cls repl (drop (DecodeRune_width src) src))"
  by pat_completeness auto

termination ReplaceAllFunc
proof (relation "measure (\<lambda>(cls, repl, src). length src)")
  show "wf (measure (\<lambda>(cls, repl, src). length src))" by simp
next
  fix cls :: "char \<Rightarrow> bool" and repl :: "string \<Rightarrow> string" and src :: string
  assume "src \<noteq> []"
  then show "((cls, repl, tl src), (cls, repl, src)) \<in> measure (\<lambda>(cls, repl, src). length src)"
    by (cases src) simp_all
next
  fix cls :: "char \<Rightarrow> bool" and repl :: "string \<Rightarrow> string" and src :: string
  assume "src \<noteq> []"
  moreover have "0 < DecodeRune_width src"
    by (simp add: DecodeRune_width_def Let_def)
  ultimately show "((cls, repl, drop (DecodeRune_width src) src), (cls, repl, src))
               \<in> measure (\<lambda>(cls, repl, src). length src)"
    by (cases src) simp_all
qed

declare ReplaceAllFunc.simps [simp del]

definition escape :: "string \<Rightarrow> bool \<Rightarrow> string" where
  "escape s allowReserved0 =
     (if allowReserved0 then ReplaceAllFunc reserved_class pctEncode s
      else ReplaceAllFunc unreserved_class pctEncode s)"

section \<open>Expansion\<close>

text \<open>
  The output buffer is a string that every function takes and returns. The lengths the
  code compares (\<open>buf.Len()\<close>, \<open>len(s)\<close>) are byte counts.
\<close>

definition expandName :: "templatePart \<Rightarrow> string \<Rightarrow> string \<Rightarrow> bool \<Rightarrow> string" where
  "expandName t buf name0 empty0 =
     (if named t then
        (let buf = buf @ name0
         in if empty0 then buf @ ifemp t else buf @ ''='')
      else buf)"

definition expandString :: "templatePart \<Rightarrow> string \<Rightarrow> templateTerm \<Rightarrow> string \<Rightarrow> string" where
  "expandString t buf term s0 =
     (let s = (if int (length s0) > truncate' term \<and> truncate' term > 0
               then take (nat (truncate' term)) s0 else s0);
          buf = expandName t buf (name term) (length s = 0)
      in buf @ escape s (allowReserved t))"

fun expandArray_loop ::
  "golib \<Rightarrow> templatePart \<Rightarrow> templateTerm \<Rightarrow> nat \<Rightarrow> val list \<Rightarrow> string \<Rightarrow> string" where
  "expandArray_loop L t term i [] buf = buf"
| "expandArray_loop L t term i (value # rest) buf =
     (let buf = (if explode term \<and> i > 0 then buf @ sep t
                 else if i > 0 then buf @ '','' else buf);
          s = (case value of VString v \<Rightarrow> v | _ \<Rightarrow> Sprintf_v L value);
          s = (if int (length s) > truncate' term \<and> truncate' term > 0
               then take (nat (truncate' term)) s else s);
          buf = (if named t \<and> explode term
                 then expandName t buf (name term) (length s = 0) else buf);
          buf = buf @ escape s (allowReserved t)
      in expandArray_loop L t term (Suc i) rest buf)"

definition expandArray ::
  "golib \<Rightarrow> templatePart \<Rightarrow> string \<Rightarrow> templateTerm \<Rightarrow> val list \<Rightarrow> string" where
  "expandArray L t buf term a =
     (if length a = 0 then buf
      else
        let buf = (if \<not> explode term then expandName t buf (name term) False else buf)
        in expandArray_loop L t term 0 a buf)"

fun expandMap_loop ::
  "golib \<Rightarrow> templatePart \<Rightarrow> templateTerm \<Rightarrow> nat \<Rightarrow> gomap \<Rightarrow> string \<Rightarrow> string" where
  "expandMap_loop L t term firstLen [] buf = buf"
| "expandMap_loop L t term firstLen ((k, value) # rest) buf =
     (let buf = (if firstLen \<noteq> length buf
                 then (if explode term then buf @ sep t else buf @ '','')
                 else buf);
          s = (case value of VString v \<Rightarrow> v | _ \<Rightarrow> Sprintf_v L value);
          buf = (if explode term
                 then buf @ escape k (allowReserved t) @ ''='' @ escape s (allowReserved t)
                 else buf @ escape k (allowReserved t) @ '','' @ escape s (allowReserved t))
      in expandMap_loop L t term firstLen rest buf)"

definition expandMap ::
  "golib \<Rightarrow> templatePart \<Rightarrow> string \<Rightarrow> templateTerm \<Rightarrow> gomap \<Rightarrow> string" where
  "expandMap L t buf term m =
     (if length m = 0 then buf
      else
        let buf = (if \<not> explode term then expandName t buf (name term) (length m = 0)
                   else buf);
            firstLen = length buf
        in expandMap_loop L t term firstLen m buf)"

text \<open>
  One iteration of the loop over \<open>t.terms\<close> in \<open>templatePart.expand\<close>: the buffer after
  it, and the error with which the function returns from inside the loop, if it does.
\<close>

definition expand_term ::
  "golib \<Rightarrow> templatePart \<Rightarrow> nat \<Rightarrow> templateTerm \<Rightarrow> string \<Rightarrow> gomap
     \<Rightarrow> panic + (string \<times> goerror)" where
  "expand_term L t firstLen term buf0 values =
     (case map_index values (name term) of
        None \<Rightarrow> Inr (buf0, None)
      | Some value \<Rightarrow>
          let buf = (if length buf0 \<noteq> firstLen then buf0 @ sep t else buf0) in
          (case value of
             VString v \<Rightarrow> Inr (expandString t buf term v, None)
           | VList a \<Rightarrow> Inr (expandArray L t buf term a, None)
           | VMap m \<Rightarrow>
               if truncate' term > 0 then Inr (buf, Some ''cannot truncate a map expansion'')
               else Inr (expandMap L t buf term m, None)
           | _ \<Rightarrow>
              (case struct2map L value of
                 Inl p \<Rightarrow> Inl p
               | Inr (Some m) \<Rightarrow>
                   if truncate' term > 0
                   then Inr (buf, Some ''cannot truncate a map expansion'')
                   else Inr (expandMap L t buf term m, None)
               | Inr None \<Rightarrow> Inr (expandString t buf term (Sprintf_v L value), None))))"

fun expand_terms ::
  "golib \<Rightarrow> templatePart \<Rightarrow> nat \<Rightarrow> templateTerm list \<Rightarrow> string \<Rightarrow> gomap
     \<Rightarrow> panic + (string \<times> goerror)" where
  "expand_terms L t firstLen [] buf values = Inr (buf, None)"
| "expand_terms L t firstLen (term # rest) buf values =
     (case expand_term L t firstLen term buf values of
        Inl p \<Rightarrow> Inl p
      | Inr (buf1, Some e) \<Rightarrow> Inr (buf1, Some e)
      | Inr (buf1, None) \<Rightarrow> expand_terms L t firstLen rest buf1 values)"

definition expand ::
  "golib \<Rightarrow> templatePart \<Rightarrow> string \<Rightarrow> gomap \<Rightarrow> panic + (string \<times> goerror)" where
  "expand L t buf values =
     (if length (raw t) > 0 then Inr (buf @ raw t, None)
      else
        let zeroLen = length buf;
            buf1 = buf @ first t;
            firstLen = length buf1
        in case expand_terms L t firstLen (terms t) buf1 values of
             Inl p \<Rightarrow> Inl p
           | Inr (buf2, Some e) \<Rightarrow> Inr (buf2, Some e)
           | Inr (buf2, None) \<Rightarrow>
               Inr (if length buf2 = firstLen then take zeroLen buf2 else buf2, None))"

text \<open>
  \<open>Template.Expand\<close>: the loop over the parts, run on a map, and the method itself,
  whose recursive call \<open>t.Expand(m)\<close> passes a map and so reaches the loop at once. The
  method returns the pair of the string and the error.
\<close>

fun Expand_parts ::
  "golib \<Rightarrow> templatePart list \<Rightarrow> string \<Rightarrow> gomap \<Rightarrow> panic + (string \<times> goerror)" where
  "Expand_parts L [] buf values = Inr (buf, None)"
| "Expand_parts L (p # ps) buf values =
     (case expand L p buf values of
        Inl pn \<Rightarrow> Inl pn
      | Inr (buf1, Some e) \<Rightarrow> Inr ([], Some e)
      | Inr (buf1, None) \<Rightarrow> Expand_parts L ps buf1 values)"

definition Template_Expand :: "golib \<Rightarrow> Template \<Rightarrow> val \<Rightarrow> panic + (string \<times> goerror)" where
  "Template_Expand L t value =
     (case value of
        VMap values \<Rightarrow> Expand_parts L (parts t) [] values
      | _ \<Rightarrow>
         (case struct2map L value of
            Inl p \<Rightarrow> Inl p
          | Inr None \<Rightarrow>
              Inr ([], Some ''expected map[string]interface{}, struct, or pointer to struct.'')
          | Inr (Some m) \<Rightarrow> Expand_parts L (parts t) [] m))"

text \<open>The package function \<open>Expand\<close>, which parses and expands in one call.\<close>

definition Expand :: "golib \<Rightarrow> string \<Rightarrow> gomap \<Rightarrow> panic + (string \<times> goerror)" where
  "Expand L path expansions =
     (case Parse path of
        Inl p \<Rightarrow> Inl p
      | Inr (_, Some e) \<Rightarrow> Inr ([], Some e)
      | Inr (None, None) \<Rightarrow> Inl NilDereference
      | Inr (Some template, None) \<Rightarrow> Template_Expand L template (VMap expansions))"

section \<open>Notions used in the statements\<close>

text \<open>
  An optionally signed decimal numeral that fits a 64-bit \<open>int\<close>: the inputs on which
  \<open>strconv.ParseInt(s, 10, 0)\<close> is specified to succeed.
\<close>

definition decimal_digits :: "string \<Rightarrow> bool" where
  "decimal_digits ds = (ds \<noteq> [] \<and> list_all (byte_in (CHR ''0'') (CHR ''9'')) ds)"

fun digits_value :: "nat \<Rightarrow> string \<Rightarrow> nat" where
  "digits_value n [] = n"
| "digits_value n (c # cs) = digits_value (n * 10 + (of_char c - of_char (CHR ''0''))) cs"

definition signed_decimal64 :: "string \<Rightarrow> bool" where
  "signed_decimal64 s =
     (let neg = (s \<noteq> [] \<and> hd s = CHR ''-'');
          ds = (if s \<noteq> [] \<and> (hd s = CHR ''+'' \<or> hd s = CHR ''-'') then tl s else s)
      in decimal_digits ds \<and>
         (if neg then digits_value 0 ds \<le> 2 ^ 63 else digits_value 0 ds < 2 ^ 63))"

text \<open>A term specification without the \<open>*\<close> it may end with.\<close>

definition drop_star :: "string \<Rightarrow> string" where
  "drop_star s = (if HasSuffix s (CHR ''*'') then butlast s else s)"

text \<open>The five fields that the operator of an expression fixes.\<close>

definition has_config ::
  "templatePart \<Rightarrow> string \<Rightarrow> string \<Rightarrow> bool \<Rightarrow> string \<Rightarrow> bool \<Rightarrow> bool" where
  "has_config p prefix separator named_pairs empty_text reserved_allowed =
     (first p = prefix \<and> sep p = separator \<and> named p = named_pairs
      \<and> ifemp p = empty_text \<and> allowReserved p = reserved_allowed)"

text \<open>
  The two character sets of the specification, and what it means for three bytes to be
  the percent-encoding of a byte: a percent sign and the two uppercase hexadecimal digits
  of its value. \<open>encodes allowed b e\<close> says that \<open>e\<close> is what a byte \<open>b\<close> becomes when
  the bytes of \<open>allowed\<close> are left as they are.
\<close>

definition hex_digits :: "char set" where
  "hex_digits = set ''0123456789ABCDEF''"

definition hex_value :: "char \<Rightarrow> nat" where
  "hex_value c = (if byte_in (CHR ''0'') (CHR ''9'') c then of_char c - of_char (CHR ''0'')
                  else of_char c - of_char (CHR ''A'') + 10)"

definition pct_triplet :: "char \<Rightarrow> string \<Rightarrow> bool" where
  "pct_triplet b e =
     (case e of
        [p, h, l] \<Rightarrow> p = CHR ''%'' \<and> h \<in> hex_digits \<and> l \<in> hex_digits
                      \<and> hex_value h * 16 + hex_value l = of_char b
      | _ \<Rightarrow> False)"

definition spec_unreserved :: "char set" where
  "spec_unreserved =
     set ''ABCDEFGHIJKLMNOPQRSTUVWXYZabcdefghijklmnopqrstuvwxyz0123456789-._~''"

definition spec_reserved_allowed :: "char set" where
  "spec_reserved_allowed = spec_unreserved \<union> insert (CHR 0x27) (set '':/?#[]@!$&()*+,;='')"

definition encodes :: "char set \<Rightarrow> char \<Rightarrow> string \<Rightarrow> bool" where
  "encodes allowed b e = (if b \<in> allowed then e = [b] else pct_triplet b e)"

text \<open>
  The string form of a scalar value: the value itself for a string, and its default
  formatting for a value that is no list, no map, no struct and no pointer to a struct.
\<close>

definition scalar_form :: "golib \<Rightarrow> val \<Rightarrow> string option" where
  "scalar_form L v =
     (case v of
        VString s \<Rightarrow> Some s
      | VList a \<Rightarrow> None
      | VMap m \<Rightarrow> None
      | _ \<Rightarrow> (case struct2map L v of Inr None \<Rightarrow> Some (Sprintf_v L v) | _ \<Rightarrow> None))"

text \<open>
  A term that has nothing to render in an environment: it is absent, or its value is an
  empty list, or an empty map (a struct without fields is one) on a term without a
  truncation length, or, in an expression without named pairs, a scalar whose string
  form is empty.
\<close>

definition no_content :: "golib \<Rightarrow> templatePart \<Rightarrow> gomap \<Rightarrow> templateTerm \<Rightarrow> bool" where
  "no_content L t values term =
     (case map_index values (name term) of
        None \<Rightarrow> True
      | Some v \<Rightarrow>
         (case v of
            VList a \<Rightarrow> a = []
          | VMap m \<Rightarrow> m = [] \<and> truncate' term \<le> 0
          | _ \<Rightarrow>
             (case scalar_form L v of
                Some s \<Rightarrow> s = [] \<and> \<not> named t
              | None \<Rightarrow>
                 (case struct2map L v of
                    Inr (Some m) \<Rightarrow> m = [] \<and> truncate' term \<le> 0
                  | _ \<Rightarrow> False))))"

text \<open>
  The first \<open>n\<close> characters of a string, where a character is what \<open>utf8.DecodeRune\<close>
  reads at the head of the input: a whole UTF-8 encoding, or one byte that starts none.
\<close>

fun first_chars :: "nat \<Rightarrow> string \<Rightarrow> string" where
  "first_chars 0 s = []"
| "first_chars (Suc n) s =
     (if s = [] then []
      else take (DecodeRune_width s) s @ first_chars n (drop (DecodeRune_width s) s))"

text \<open>
  An instance of the library parameters for evaluating the model on inputs that hold
  strings, lists, maps and values of other types described by their default formatting.
\<close>

definition sample_lib :: golib where
  "sample_lib =
     \<lparr>Sprintf_v = (\<lambda>v. case v of VString s \<Rightarrow> s | VOther d \<Rightarrow> d | _ \<Rightarrow> ''<nil>''),
      Tag_Get_uri = (\<lambda>tag. []),
      TrimSpace = (\<lambda>s. s)\<rparr>"

section \<open>Auxiliary facts\<close>

subsection \<open>Evaluation on concrete inputs\<close>

lemma replicate_numeral: "replicate (numeral k) x = x # replicate (pred_numeral k) x"
  by (simp add: numeral_eq_Suc)

lemma list_update_numeral: "(x # xs)[numeral k := v] = x # xs[pred_numeral k := v]"
  by (simp add: numeral_eq_Suc)

lemmas parse_eval = Parse_def parseExpression_def parseTerm_def Contains_def HasSuffix_def
  validname_def name_byte_def hex_byte_def byte_in_def zero_part_def zero_term_def
  ParseInt_def ParseUint_def numerror_msg_def Let_def replicate_numeral list_update_numeral

lemma ReplaceAllFunc_Nil: "ReplaceAllFunc cls repl [] = []"
  by (simp add: ReplaceAllFunc.simps)

lemma ReplaceAllFunc_Cons:
  "ReplaceAllFunc cls repl (b # bs) =
     (if (of_char b :: nat) < 0x80 \<and> cls b then b # ReplaceAllFunc cls repl bs
      else repl (take (DecodeRune_width (b # bs)) (b # bs))
             @ ReplaceAllFunc cls repl (drop (DecodeRune_width (b # bs)) (b # bs)))"
  by (subst ReplaceAllFunc.simps) simp

lemmas expand_eval = Expand_def Template_Expand_def expand_def expand_term_def expandString_def
  expandName_def expandArray_def expandMap_def map_index_def escape_def ReplaceAllFunc_Cons
  ReplaceAllFunc_Nil unreserved_class_def reserved_class_def DecodeRune_width_def hex_def
  sample_lib_def zero_part_def zero_term_def byte_in_def

subsection \<open>Splitting\<close>

lemma Split_no_sep: "c \<notin> set s \<Longrightarrow> Split s c = [s]"
  by (induction s) (auto simp add: Let_def)

lemma Split_at_sep: "c \<notin> set a \<Longrightarrow> Split (a @ c # b) c = a # Split b c"
  by (induction a) (auto simp add: Let_def)

lemma Split_not_Nil: "Split s c \<noteq> []"
  by (cases s) (simp_all add: Let_def)

lemma Split_append_sep: "Split (a @ c # b) c = Split a c @ Split b c"
  by (induction a) (auto simp add: Let_def Split_not_Nil)

subsection \<open>Reading integers\<close>

lemma digits_value_mono: "n \<le> digits_value n ds"
proof (induction ds arbitrary: n)
  case Nil
  show ?case by simp
next
  case (Cons c cs)
  have "n \<le> n * 10 + (of_char c - of_char (CHR ''0''))" by simp
  also have "\<dots> \<le> digits_value (n * 10 + (of_char c - of_char (CHR ''0''))) cs"
    by (rule Cons.IH)
  finally show ?case by simp
qed

lemma ParseUint_loop_Inr:
  "ParseUint_loop ds n = Inr v \<longleftrightarrow>
     list_all (byte_in (CHR ''0'') (CHR ''9'')) ds \<and> v = digits_value n ds
     \<and> (ds \<noteq> [] \<longrightarrow> digits_value n ds \<le> 2 ^ 64 - 1)"
proof (induction ds arbitrary: n)
  case Nil
  show ?case by auto
next
  case (Cons c cs)
  let ?n1 = "n * 10 + (of_char c - of_char (CHR ''0''))"
  have mono: "?n1 \<le> digits_value ?n1 cs" by (rule digits_value_mono)
  show ?case
  proof (cases "byte_in (CHR ''0'') (CHR ''9'') c")
    case False
    then show ?thesis by simp
  next
    case dig: True
    then have c48: "(48::nat) \<le> of_char c" by (simp add: byte_in_def)
    show ?thesis
    proof (cases "n \<ge> (2 ^ 64 - 1) div 10 + 1")
      case True
      then have "?n1 > 2 ^ 64 - 1" by simp
      with mono have "digits_value ?n1 cs > 2 ^ 64 - 1" by linarith
      with dig c48 True show ?thesis by simp
    next
      case small: False
      show ?thesis
      proof (cases "?n1 > 2 ^ 64 - 1")
        case True
        with mono have "digits_value ?n1 cs > 2 ^ 64 - 1" by linarith
        with dig c48 small True show ?thesis by (simp add: Let_def)
      next
        case False
        have "cs = [] \<Longrightarrow> digits_value ?n1 cs \<le> 2 ^ 64 - 1" using False by simp
        with dig c48 small False Cons.IH [of ?n1] show ?thesis
          by (auto simp add: Let_def)
      qed
    qed
  qed
qed

lemma ParseInt_ok_iff: "snd (ParseInt s) = None \<longleftrightarrow> signed_decimal64 s"
proof (cases "s = []")
  case True
  then show ?thesis
    by (simp add: ParseInt_def signed_decimal64_def decimal_digits_def numerror_msg_def)
next
  case False
  define ds where "ds = (if hd s = CHR ''+'' \<or> hd s = CHR ''-'' then tl s else s)"
  show ?thesis
  proof (cases "ParseUint ds")
    case (Inl e)
    then have "\<not> (decimal_digits ds \<and> digits_value 0 ds \<le> 2 ^ 64 - 1)"
      using ParseUint_loop_Inr [of ds 0]
      by (auto simp add: ParseUint_def decimal_digits_def split: if_splits)
    then have "\<not> signed_decimal64 s"
      using False by (auto simp add: signed_decimal64_def ds_def Let_def split: if_splits)
    moreover have "snd (ParseInt s) \<noteq> None"
      using Inl False
      by (cases e) (auto simp add: ParseInt_def ds_def Let_def numerror_msg_def)
    ultimately show ?thesis by simp
  next
    case (Inr un)
    then have "decimal_digits ds \<and> un = digits_value 0 ds"
      using ParseUint_loop_Inr [of ds 0 un]
      by (auto simp add: ParseUint_def decimal_digits_def split: if_splits)
    then show ?thesis
      using Inr False
      by (auto simp add: ParseInt_def signed_decimal64_def ds_def Let_def numerror_msg_def)
  qed
qed

subsection \<open>Percent-encoding\<close>

lemma hex_nth_digit: "n < 16 \<Longrightarrow> hex ! n \<in> hex_digits \<and> hex_value (hex ! n) = n"
proof -
  assume "n < 16"
  then consider "n = 0" | "n = 1" | "n = 2" | "n = 3" | "n = 4" | "n = 5" | "n = 6" | "n = 7"
    | "n = 8" | "n = 9" | "n = 10" | "n = 11" | "n = 12" | "n = 13" | "n = 14" | "n = 15"
    by atomize_elim arith
  then show ?thesis
    by cases (simp_all add: hex_def hex_digits_def hex_value_def byte_in_def)
qed

lemma pctEncode_single: "pct_triplet b (pctEncode [b])"
proof -
  have lt: "(of_char b :: nat) < 256" by (rule nat_of_char_less_256)
  then have "(of_char b :: nat) div 16 < 16" "(of_char b :: nat) mod 16 < 16"
    by (simp_all add: less_mult_imp_div_less)
  then show ?thesis
    using hex_nth_digit [of "of_char b div 16"] hex_nth_digit [of "of_char b mod 16"]
    by (simp add: pct_triplet_def)
qed


lemma pctEncode_append: "pctEncode (xs @ ys) = pctEncode xs @ pctEncode ys"
  by (induction xs) simp_all

lemma pctEncode_concat: "pctEncode xs = concat (map (\<lambda>b. pctEncode [b]) xs)"
  by (induction xs) simp_all

lemma DecodeRune_width_bytes:
  assumes "DecodeRune_width p \<noteq> 1"
  shows "DecodeRune_width p \<le> length p
         \<and> (\<forall>i < DecodeRune_width p. (0x80::nat) \<le> of_char (p ! i))"
proof -
  define p0 :: nat where "p0 = of_char (p ! 0)"
  define b1 :: nat where "b1 = of_char (p ! 1)"
  define b2 :: nat where "b2 = of_char (p ! 2)"
  define b3 :: nat where "b3 = of_char (p ! 3)"
  define sz :: nat where "sz = (if p0 < 0xE0 then 2 else if p0 < 0xF0 then 3 else 4)"
  define lo :: nat where "lo = (if p0 = 0xE0 then 0xA0 else if p0 = 0xF0 then 0x90 else 0x80)"
  define hi :: nat where "hi = (if p0 = 0xED then 0x9F else if p0 = 0xF4 then 0x8F else 0xBF)"
  have w: "DecodeRune_width p =
     (if p0 < 0x80 then 1
      else if p0 < 0xC2 \<or> 0xF4 < p0 then 1
      else if length p < sz then 1
      else if b1 < lo \<or> hi < b1 then 1
      else if sz \<le> 2 then 2
      else if b2 < 0x80 \<or> 0xBF < b2 then 1
      else if sz \<le> 3 then 3
      else if b3 < 0x80 \<or> 0xBF < b3 then 1
      else 4)"
    unfolding DecodeRune_width_def Let_def p0_def b1_def b2_def b3_def sz_def lo_def hi_def
    by (rule refl)
  have lo: "0x80 \<le> lo" by (simp add: lo_def)
  have sz: "sz = 2 \<or> sz = 3 \<or> sz = 4" by (simp add: sz_def)
  from assms w lo
  consider (two) "DecodeRune_width p = 2" "2 \<le> length p" "0x80 \<le> p0" "0x80 \<le> b1"
    | (three) "DecodeRune_width p = 3" "3 \<le> length p" "0x80 \<le> p0" "0x80 \<le> b1" "0x80 \<le> b2"
    | (four) "DecodeRune_width p = 4" "4 \<le> length p" "0x80 \<le> p0" "0x80 \<le> b1" "0x80 \<le> b2"
        "0x80 \<le> b3"
    using sz by (auto split: if_splits)
  then show ?thesis
  proof cases
    case two
    have "i = 0 \<or> i = 1" if "i < 2" for i :: nat using that by arith
    with two show ?thesis by (auto simp add: p0_def b1_def)
  next
    case three
    have "i = 0 \<or> i = 1 \<or> i = 2" if "i < 3" for i :: nat using that by arith
    with three show ?thesis by (auto simp add: p0_def b1_def b2_def)
  next
    case four
    have "i = 0 \<or> i = 1 \<or> i = 2 \<or> i = 3" if "i < 4" for i :: nat using that by arith
    with four show ?thesis by (auto simp add: p0_def b1_def b2_def b3_def)
  qed
qed

lemma ReplaceAllFunc_pctEncode:
  "ReplaceAllFunc cls pctEncode src =
     concat (map (\<lambda>b. if (of_char b :: nat) < 0x80 \<and> cls b then [b] else pctEncode [b]) src)"
proof (induction cls pctEncode src rule: ReplaceAllFunc.induct)
  case (1 cls src)
  let ?f = "\<lambda>b. if (of_char b :: nat) < 0x80 \<and> cls b then [b] else pctEncode [b]"
  show ?case
  proof (cases "src = []")
    case True
    then show ?thesis by (simp add: ReplaceAllFunc_Nil)
  next
    case ne: False
    then obtain b bs where src: "src = b # bs" by (cases src) auto
    show ?thesis
    proof (cases "(of_char (hd src) :: nat) < 0x80 \<and> cls (hd src)")
      case True
      with ne "1.hyps"(1) src show ?thesis
        by (simp add: ReplaceAllFunc_Cons)
    next
      case False
      let ?w = "DecodeRune_width src"
      have enc: "\<forall>c \<in> set (take ?w src). ?f c = pctEncode [c]"
      proof (cases "?w = 1")
        case True
        with src False show ?thesis by simp
      next
        case wide: False
        from DecodeRune_width_bytes [OF wide]
        have "\<forall>c \<in> set (take ?w src). (0x80::nat) \<le> of_char c"
          by (auto simp add: in_set_conv_nth)
        then show ?thesis by auto
      qed
      have "concat (map ?f src) = concat (map ?f (take ?w src)) @ concat (map ?f (drop ?w src))"
        by (metis append_take_drop_id concat_append map_append)
      also have "concat (map ?f (take ?w src)) = concat (map (\<lambda>b. pctEncode [b]) (take ?w src))"
        using enc by (intro arg_cong [where f = concat] map_cong) auto
      also have "\<dots> = pctEncode (take ?w src)"
        by (rule pctEncode_concat [symmetric])
      finally have eq: "concat (map ?f src) = pctEncode (take ?w src) @ concat (map ?f (drop ?w src))" .
      have step: "ReplaceAllFunc cls pctEncode src =
          pctEncode (take ?w src) @ ReplaceAllFunc cls pctEncode (drop ?w src)"
        using ne False by (subst ReplaceAllFunc.simps) (simp only: if_False)
      from "1.hyps"(2) [OF ne False] step eq show ?thesis by simp
    qed
  qed
qed

lemma unreserved_class_iff: "(of_char b :: nat) < 0x80 \<and> unreserved_class b \<longleftrightarrow> b \<in> spec_unreserved"
proof -
  define n :: nat where "n = of_char b"
  have eq: "(b = c) = (n = of_char c)" for c by (auto simp add: n_def)
  show ?thesis
    unfolding unreserved_class_def spec_unreserved_def byte_in_def n_def [symmetric]
    by (simp add: eq) arith
qed

lemma reserved_class_iff: "(of_char b :: nat) < 0x80 \<and> reserved_class b \<longleftrightarrow> b \<in> spec_reserved_allowed"
proof -
  define n :: nat where "n = of_char b"
  have eq: "(b = c) = (n = of_char c)" for c by (auto simp add: n_def)
  show ?thesis
    unfolding reserved_class_def spec_reserved_allowed_def spec_unreserved_def byte_in_def
      n_def [symmetric]
    by (simp add: eq) arith
qed

lemma encodes_class:
  assumes "\<And>b. ((of_char b :: nat) < 0x80 \<and> cls b) = (b \<in> A)"
  shows "encodes A b (if (of_char b :: nat) < 0x80 \<and> cls b then [b] else pctEncode [b])"
proof (cases "b \<in> A")
  case True
  then show ?thesis by (simp only: assms encodes_def if_True)
next
  case False
  then show ?thesis using pctEncode_single [of b] by (simp only: assms encodes_def if_False)
qed

subsection \<open>The loops over segments, parts and terms\<close>

lemma Parse_loop_error_prefix:
  assumes "Parse_loop i ss ps = Inr (r, Some e)"
  shows "\<exists>r'. Parse_loop i (ss @ rest) ps' = Inr (r', Some e)"
  using assms
proof (induction ss arbitrary: i ps ps' r)
  case Nil
  then show ?case by simp
next
  case (Cons s ss)
  show ?case
  proof (cases "i = 0")
    case True
    with Cons.prems Cons.IH show ?thesis
      by (auto split: if_splits)
  next
    case False
    with Cons.prems Cons.IH show ?thesis
      by (auto simp add: Let_def split: if_splits sum.splits prod.splits)
  qed
qed

lemma Expand_parts_error:
  assumes "Expand_parts L ps buf0 values = Inr (buf, None)"
    and "expand L p buf values = Inr (b, Some e)"
  shows "Expand_parts L (ps @ p # qs) buf0 values = Inr ([], Some e)"
  using assms
proof (induction ps arbitrary: buf0)
  case Nil
  then show ?case by simp
next
  case (Cons a ps)
  then show ?case
    by (auto split: sum.splits prod.splits option.splits)
qed

lemma Expand_parts_error_empty:
  "Expand_parts L ps buf0 values = Inr (s, Some e) \<Longrightarrow> s = []"
  by (induction ps arbitrary: buf0) (auto split: sum.splits prod.splits option.splits)

lemma expand_terms_no_content:
  assumes "\<forall>term \<in> set ts. no_content L t values term"
  shows "expand_terms L t (length buf) ts buf values = Inr (buf, None)"
  using assms
proof (induction ts)
  case Nil
  show ?case by simp
next
  case (Cons tm ts)
  then have nc: "no_content L t values tm" by simp
  have "expand_term L t (length buf) tm buf values = Inr (buf, None)"
  proof (cases "map_index values (name tm)")
    case None
    then show ?thesis by (simp add: expand_term_def)
  next
    case (Some v)
    with nc show ?thesis
      by (cases v)
         (auto simp add: no_content_def expand_term_def scalar_form_def expandString_def
            expandName_def expandArray_def expandMap_def escape_def ReplaceAllFunc_Nil Let_def
            split: sum.splits option.splits if_splits)
  qed
  with Cons show ?case by simp
qed

lemma Expand_parts_skip:
  assumes "\<And>buf. expand L t buf values = Inr (buf, None)"
  shows "Expand_parts L (ps @ t # qs) buf0 values = Expand_parts L (ps @ qs) buf0 values"
proof (induction ps arbitrary: buf0)
  case Nil
  show ?case by (simp add: assms)
next
  case (Cons p ps)
  then show ?case by (simp split: sum.splits prod.splits option.splits)
qed

section \<open>The parser\<close>

text \<open>
  Claim C1. The claim is that \<open>Parse\<close> is total and answers every malformed template,
  the empty expression \<open>{}\<close> among them, with an error. On \<open>{}\<close> the code does not
  return: \<open>parseExpression\<close> reads the first byte of the empty expression body, and the
  index expression panics.
\<close>

theorem Parse_empty_expression_panics: "Parse ''{}'' = Inl IndexOutOfRange"
  by (simp add: parse_eval)

text \<open>
  Claim C7, as stated: a term whose length after the colon is negative, as in \<open>{x:-1}\<close>,
  is rejected. It is not: \<open>strconv.ParseInt\<close> reads a sign, no check of the sign
  follows, and the template is returned with the length \<open>-1\<close>.
\<close>

theorem Parse_negative_truncate_accepted:
  "Parse ''{x:-1}'' =
     Inr (Some \<lparr>template_raw = ''{x:-1}'',
                parts = [zero_part,
                         zero_part\<lparr>terms := [\<lparr>name = ''x'', explode = False, truncate' = - 1\<rparr>],
                                    sep := '',''\<rparr>,
                         zero_part]\<rparr>, None)"
  by (simp add: parse_eval)

text \<open>
  Claim C7, amended: a term specification with exactly one colon, whose text after the
  colon (the final \<open>*\<close> of the term apart) is not an optionally signed decimal integer
  in the range of a 64-bit \<open>int\<close>, fails to parse with an error.
\<close>

theorem parseTerm_rejects_bad_length:
  assumes shape: "drop_star term0 = nm @ CHR '':'' # sfx"
    and nm: "CHR '':'' \<notin> set nm"
    and sfx: "CHR '':'' \<notin> set sfx"
    and bad: "\<not> signed_decimal64 sfx"
  shows "snd (parseTerm term0) \<noteq> None"
proof -
  define tm where "tm = drop_star term0"
  have split: "Split tm (CHR '':'') = [nm, sfx]"
    using shape nm sfx by (simp add: tm_def Split_at_sep Split_no_sep)
  obtain parsed err where p: "ParseInt sfx = (parsed, err)"
    by (cases "ParseInt sfx")
  with bad ParseInt_ok_iff [of sfx] have "err \<noteq> None" by simp
  then obtain msg where err: "err = Some msg" by auto
  show ?thesis
    using split p err
    by (simp add: parseTerm_def Let_def tm_def drop_star_def split: if_splits prod.splits)
qed

theorem parseTerm_rejects_bad_length_witness:
  "drop_star ''x:1a'' = ''x'' @ CHR '':'' # ''1a''
   \<and> CHR '':'' \<notin> set ''x'' \<and> CHR '':'' \<notin> set ''1a'' \<and> \<not> signed_decimal64 ''1a''
   \<and> snd (parseTerm ''x:1a'') \<noteq> None"
proof -
  have 1: "drop_star ''x:1a'' = ''x'' @ CHR '':'' # ''1a''"
    by (simp add: drop_star_def HasSuffix_def)
  have 2: "CHR '':'' \<notin> set ''x''" by simp
  have 3: "CHR '':'' \<notin> set ''1a''" by simp
  have 4: "\<not> signed_decimal64 ''1a''"
    by (simp add: signed_decimal64_def decimal_digits_def byte_in_def)
  from parseTerm_rejects_bad_length [OF 1 2 3 4] 1 2 3 4 show ?thesis by blast
qed

text \<open>
  Claim C8. For each of the eight operators, \<open>parseExpression\<close> sets the prefix, the
  separator, the named-pairs flag, the empty-value text and the flag for reserved
  characters as the operator table of the specification gives them; an expression body
  that starts with none of the seven operator characters gets the row of the simple
  operator. (Where the table gives no empty-value text, the field is left empty.)
\<close>

theorem parseExpression_operator_table:
  "(\<exists>p e. parseExpression (CHR ''+'' # body) = Inr (p, e) \<and> has_config p [] '','' False [] True)
   \<and> (\<exists>p e. parseExpression (CHR ''.'' # body) = Inr (p, e) \<and> has_config p ''.'' ''.'' False [] False)
   \<and> (\<exists>p e. parseExpression (CHR ''/'' # body) = Inr (p, e) \<and> has_config p ''/'' ''/'' False [] False)
   \<and> (\<exists>p e. parseExpression (CHR '';'' # body) = Inr (p, e) \<and> has_config p '';'' '';'' True [] False)
   \<and> (\<exists>p e. parseExpression (CHR ''?'' # body) = Inr (p, e) \<and> has_config p ''?'' ''&'' True ''='' False)
   \<and> (\<exists>p e. parseExpression (CHR ''&'' # body) = Inr (p, e) \<and> has_config p ''&'' ''&'' True ''='' False)
   \<and> (\<exists>p e. parseExpression (CHR ''#'' # body) = Inr (p, e) \<and> has_config p ''#'' '','' False [] True)
   \<and> (c \<notin> set ''+./;?&#'' \<longrightarrow>
        (\<exists>p e. parseExpression (c # body) = Inr (p, e) \<and> has_config p [] '','' False [] False))"
  by (simp add: parseExpression_def has_config_def zero_part_def Let_def split: prod.splits)

theorem parseExpression_operator_table_witness:
  "CHR ''v'' \<notin> set ''+./;?&#''
   \<and> (\<exists>p e. parseExpression ''var'' = Inr (p, e) \<and> has_config p [] '','' False [] False)
   \<and> (\<exists>p e. parseExpression ''?var'' = Inr (p, e) \<and> has_config p ''?'' ''&'' True ''='' False)"
  using parseExpression_operator_table [of "''ar''" "CHR ''v''"]
    parseExpression_operator_table [of "''var''" "CHR ''v''"]
  by simp

section \<open>The expander\<close>

text \<open>
  Claim C10. The claim is that \<open>Template.Expand\<close> answers every value that is neither a
  map nor a struct nor a pointer to a struct with an error and the empty string. For the
  \<open>nil\<close> interface value it does not return: \<open>struct2map\<close> asks the zero
  \<open>reflect.Value\<close> for its type, which panics.
\<close>

theorem Template_Expand_nil_panics: "Template_Expand L t VNil = Inl ReflectInvalid"
  by (simp add: Template_Expand_def)

text \<open>
  For a string, a list and a value of another type that is no pointer, the error and the
  empty string are returned, as for every pointer chain that ends in such a value.
\<close>

lemma Template_Expand_rejects_scalars:
  "v = VString x \<or> v = VList a \<or> v = VOther d \<Longrightarrow>
   Template_Expand L t v =
     Inr ([], Some ''expected map[string]interface{}, struct, or pointer to struct.'')"
  by (auto simp add: Template_Expand_def)

text \<open>
  Claim C4. The values of an expression are percent-encoded by \<open>escape\<close> with the flag
  \<open>allowReserved\<close> of the expression. For an expression parsed with the operator \<open>+\<close>
  or \<open>#\<close>, every byte of the reserved-allowed set is left as it is, and for every other
  operator every byte of the unreserved set; every other byte becomes a percent sign and
  the two uppercase hexadecimal digits of its value. The output is the concatenation of
  what the single bytes become, so a character of several bytes is encoded byte by
  byte.
\<close>

theorem escape_per_operator:
  assumes "parseExpression (c # body) = Inr (p, e)"
  shows "\<exists>es. escape s (allowReserved p) = concat es
              \<and> list_all2 (encodes (if c = CHR ''+'' \<or> c = CHR ''#''
                                     then spec_reserved_allowed else spec_unreserved)) s es"
proof -
  have flag: "allowReserved p = (c = CHR ''+'' \<or> c = CHR ''#'')"
    using assms
    by (auto simp add: parseExpression_def zero_part_def Let_def split: prod.splits if_splits)
  show ?thesis
  proof (cases "allowReserved p")
    case True
    let ?f = "\<lambda>b. if (of_char b :: nat) < 0x80 \<and> reserved_class b then [b] else pctEncode [b]"
    have "escape s (allowReserved p) = concat (map ?f s)"
      using True by (simp add: escape_def ReplaceAllFunc_pctEncode)
    moreover have "list_all2 (encodes spec_reserved_allowed) s (map ?f s)"
      unfolding list_all2_map2
      by (rule list_all2_refl) (rule encodes_class, rule reserved_class_iff)
    ultimately show ?thesis using True flag by auto
  next
    case False
    let ?f = "\<lambda>b. if (of_char b :: nat) < 0x80 \<and> unreserved_class b then [b] else pctEncode [b]"
    have "escape s (allowReserved p) = concat (map ?f s)"
      using False by (simp add: escape_def ReplaceAllFunc_pctEncode)
    moreover have "list_all2 (encodes spec_unreserved) s (map ?f s)"
      unfolding list_all2_map2
      by (rule list_all2_refl) (rule encodes_class, rule unreserved_class_iff)
    ultimately show ?thesis using False flag by auto
  qed
qed

text \<open>
  Claim C4, at a concrete input: the operator \<open>+\<close> leaves the slash of a value as it is
  and encodes the space.
\<close>

theorem escape_per_operator_witness:
  "parseExpression ''+x'' =
     Inr (zero_part\<lparr>terms := [zero_term\<lparr>name := ''x''\<rparr>], sep := '','', allowReserved := True\<rparr>,
          None)
   \<and> (\<exists>es. escape ''a/b c'' True = concat es
            \<and> list_all2 (encodes spec_reserved_allowed) ''a/b c'' es)
   \<and> escape ''a/b c'' True = ''a/b%20c''"
proof -
  have h: "parseExpression (CHR ''+'' # ''x'') =
     Inr (zero_part\<lparr>terms := [zero_term\<lparr>name := ''x''\<rparr>], sep := '','', allowReserved := True\<rparr>,
          None)"
    by (simp add: parse_eval)
  have "escape ''a/b c'' True = ''a/b%20c''"
    by (simp add: expand_eval)
  with escape_per_operator [OF h, of "''a/b c''"] h show ?thesis
    by (simp add: zero_part_def)
qed

text \<open>
  Claim C2. The claim is that a term whose value is an empty list or an empty map
  renders nothing, no separator either, whatever earlier terms rendered. After a term
  that rendered something the code has written the separator before it looks at the
  value, and \<open>expandArray\<close> returns at once on the empty list: the separator stays.
\<close>

theorem Expand_empty_list_writes_separator:
  "Expand L ''{x,y}'' [(''x'', VString ''a''), (''y'', VList [])] = Inr (''a,'', None)"
proof -
  have "Parse ''{x,y}'' =
      Inr (Some \<lparr>template_raw = ''{x,y}'',
                 parts = [zero_part,
                          zero_part\<lparr>terms := [zero_term\<lparr>name := ''x''\<rparr>, zero_term\<lparr>name := ''y''\<rparr>],
                                     sep := '',''\<rparr>,
                          zero_part]\<rparr>, None)"
    by (simp add: parse_eval)
  then show ?thesis by (simp add: expand_eval)
qed

text \<open>
  Claim C3, as stated: a scalar term whose string form is empty is treated as an absent
  term and contributes nothing. In an expression with named pairs it renders its name
  and the empty-value text of the operator, where an absent term renders nothing.
\<close>

theorem Expand_empty_named_scalar_differs_from_absent:
  "Expand sample_lib ''{?x}'' [(''x'', VString [])] = Inr (''?x='', None)
   \<and> Expand sample_lib ''{?x}'' [] = Inr ([], None)"
proof -
  have "Parse ''{?x}'' =
      Inr (Some \<lparr>template_raw = ''{?x}'',
                 parts = [zero_part,
                          zero_part\<lparr>terms := [zero_term\<lparr>name := ''x''\<rparr>], first := ''?'',
                                     sep := ''&'', named := True, ifemp := ''=''\<rparr>,
                          zero_part]\<rparr>, None)"
    by (simp add: parse_eval)
  then show ?thesis by (simp add: expand_eval)
qed

text \<open>
  Claim C3, amended: a scalar term that is present with an empty string form writes no
  value text. It writes the separator if an earlier term of the expression has rendered
  something, and, in an expression with named pairs, its name followed by the
  empty-value text of the operator. So it contributes nothing, as an absent term does,
  only in an expression without named pairs in which nothing was rendered before it.
\<close>

theorem empty_scalar_term:
  assumes "map_index values (name term) = Some v" and "scalar_form L v = Some []"
  shows "expand_term L t firstLen term buf values =
           Inr (buf @ (if length buf \<noteq> firstLen then sep t else [])
                    @ (if named t then name term @ ifemp t else []), None)
         \<and> (map_index values' (name term) = None \<longrightarrow>
              expand_term L t firstLen term buf values' = Inr (buf, None))"
  using assms
  by (cases v) (auto simp add: expand_term_def scalar_form_def expandString_def expandName_def
        escape_def ReplaceAllFunc_Nil Let_def split: sum.splits option.splits)

theorem empty_scalar_term_witness:
  "map_index [(''x'', VString [])] (name (zero_term\<lparr>name := ''x''\<rparr>)) = Some (VString [])
   \<and> scalar_form sample_lib (VString []) = Some []
   \<and> expand_term sample_lib
        (zero_part\<lparr>first := ''?'', sep := ''&'', named := True, ifemp := ''=''\<rparr>) 1
        (zero_term\<lparr>name := ''x''\<rparr>) ''?'' [(''x'', VString [])] = Inr (''?x='', None)
   \<and> map_index [] (name (zero_term\<lparr>name := ''x''\<rparr>)) = None
   \<and> expand_term sample_lib
        (zero_part\<lparr>first := ''?'', sep := ''&'', named := True, ifemp := ''=''\<rparr>) 1
        (zero_term\<lparr>name := ''x''\<rparr>) ''?'' [] = Inr (''?'', None)"
proof -
  have 1: "map_index [(''x'', VString [])] (name (zero_term\<lparr>name := ''x''\<rparr>)) = Some (VString [])"
    by (simp add: map_index_def zero_term_def)
  have 2: "scalar_form sample_lib (VString []) = Some []"
    by (simp add: scalar_form_def)
  have 3: "map_index [] (name (zero_term\<lparr>name := ''x''\<rparr>)) = None"
    by (simp add: map_index_def)
  from empty_scalar_term [OF 1 2,
      of "zero_part\<lparr>first := ''?'', sep := ''&'', named := True, ifemp := ''=''\<rparr>" 1 "''?''" "[]"]
    1 2 3
  show ?thesis by (simp add: zero_part_def zero_term_def)
qed

text \<open>
  Claim C5, as stated: an expression whose terms are all absent or present with an empty
  value or an empty collection contributes the empty string, for every operator. With
  named pairs a scalar whose string form is empty renders its name, and the prefix
  stays.
\<close>

theorem Expand_empty_named_scalar_keeps_prefix:
  "Expand sample_lib ''a{;x}b'' [(''x'', VString [])] = Inr (''a;xb'', None)"
proof -
  have "Parse ''a{;x}b'' =
      Inr (Some \<lparr>template_raw = ''a{;x}b'',
                 parts = [zero_part\<lparr>raw := ''a''\<rparr>,
                          zero_part\<lparr>terms := [zero_term\<lparr>name := ''x''\<rparr>], first := '';'',
                                     sep := '';'', named := True\<rparr>,
                          zero_part\<lparr>raw := ''b''\<rparr>]\<rparr>, None)"
    by (simp add: parse_eval)
  then show ?thesis by (simp add: expand_eval)
qed

text \<open>
  Claim C5, amended: an expression contributes exactly the empty string, with no prefix
  and no separator, when every one of its terms is absent, or present with an empty list,
  or present with an empty map on a term without a truncation length, or, for an operator
  without named pairs, present with a scalar whose string form is empty. The output of
  the template is then the output of the template without this expression.
\<close>

theorem empty_expression_suppressed:
  assumes "raw t = []" and "\<forall>term \<in> set (terms t). no_content L t values term"
  shows "expand L t buf values = Inr (buf, None)
         \<and> Expand_parts L (ps @ t # qs) buf0 values = Expand_parts L (ps @ qs) buf0 values"
proof -
  have e: "expand L t b values = Inr (b, None)" for b
    using assms(1) expand_terms_no_content [OF assms(2), of "b @ first t"]
    by (simp add: expand_def Let_def)
  from e Expand_parts_skip [of L t "values" ps qs buf0] show ?thesis by simp
qed

theorem empty_expression_suppressed_witness:
  "raw (zero_part\<lparr>terms := [zero_term\<lparr>name := ''x''\<rparr>, zero_term\<lparr>name := ''y''\<rparr>,
                              zero_term\<lparr>name := ''z''\<rparr>],
                    first := ''?'', sep := ''&'', named := True, ifemp := ''=''\<rparr>) = []
   \<and> list_all
        (no_content sample_lib
           (zero_part\<lparr>terms := [zero_term\<lparr>name := ''x''\<rparr>, zero_term\<lparr>name := ''y''\<rparr>,
                                 zero_term\<lparr>name := ''z''\<rparr>],
                       first := ''?'', sep := ''&'', named := True, ifemp := ''=''\<rparr>)
           [(''y'', VList []), (''z'', VMap [])])
        [zero_term\<lparr>name := ''x''\<rparr>, zero_term\<lparr>name := ''y''\<rparr>, zero_term\<lparr>name := ''z''\<rparr>]
   \<and> Expand_parts sample_lib
        [zero_part\<lparr>raw := ''a''\<rparr>,
         zero_part\<lparr>terms := [zero_term\<lparr>name := ''x''\<rparr>, zero_term\<lparr>name := ''y''\<rparr>,
                               zero_term\<lparr>name := ''z''\<rparr>],
                     first := ''?'', sep := ''&'', named := True, ifemp := ''=''\<rparr>,
         zero_part\<lparr>raw := ''b''\<rparr>]
        [] [(''y'', VList []), (''z'', VMap [])] = Inr (''ab'', None)"
proof -
  let ?T = "zero_part\<lparr>terms := [zero_term\<lparr>name := ''x''\<rparr>, zero_term\<lparr>name := ''y''\<rparr>,
                                  zero_term\<lparr>name := ''z''\<rparr>],
                        first := ''?'', sep := ''&'', named := True, ifemp := ''=''\<rparr>"
  let ?V = "[(''y'', VList []), (''z'', VMap [])]"
  have 1: "raw ?T = []" by (simp add: zero_part_def)
  have 2: "\<forall>term \<in> set (terms ?T). no_content sample_lib ?T ?V term"
    by (simp add: no_content_def map_index_def zero_part_def zero_term_def)
  have 3: "Expand_parts sample_lib ([zero_part\<lparr>raw := ''a''\<rparr>] @ [zero_part\<lparr>raw := ''b''\<rparr>]) [] ?V
             = Inr (''ab'', None)"
    by (simp add: expand_def zero_part_def)
  from empty_expression_suppressed [OF 1 2, of "[]" "[zero_part\<lparr>raw := ''a''\<rparr>]"
      "[zero_part\<lparr>raw := ''b''\<rparr>]" "[]"] 1 2 3
  show ?thesis by simp
qed

text \<open>
  Truncation of a scalar value, as the code does it. A scalar value is rendered through
  \<open>expandString\<close>. For a term with truncation length \<open>n > 0\<close> and a string form of more
  than \<open>n\<close> bytes, the value handed to the percent-encoding is the first \<open>n\<close> bytes of
  the string form; when the string form has at most \<open>n\<close> bytes, or \<open>n = 0\<close>, it is the
  string form unchanged.
\<close>

lemma scalar_truncation:
  assumes "map_index values (name term) = Some v" and "scalar_form L v = Some s"
    and "truncate' term = n"
  shows "\<exists>r. expand_term L t firstLen term buf values =
               Inr ((if length buf \<noteq> firstLen then buf @ sep t else buf)
                    @ (if named t then name term @ (if r = [] then ifemp t else ''='') else [])
                    @ escape r (allowReserved t), None)
             \<and> (0 < n \<and> n < int (length s) \<longrightarrow> r = take (nat n) s)
             \<and> (int (length s) \<le> n \<or> n = 0 \<longrightarrow> r = s)"
proof -
  define r where "r = (if int (length s) > n \<and> n > 0 then take (nat n) s else s)"
  define b1 where "b1 = (if length buf \<noteq> firstLen then buf @ sep t else buf)"
  have str: "expandString t b1 term s =
               b1 @ (if named t then name term @ (if r = [] then ifemp t else ''='') else [])
                  @ escape r (allowReserved t)"
    using assms(3) by (simp add: expandString_def expandName_def Let_def r_def)
  have "expand_term L t firstLen term buf values = Inr (expandString t b1 term s, None)"
    using assms(1,2)
    by (cases v)
       (simp_all add: expand_term_def scalar_form_def b1_def
          split: sum.splits option.splits)
  with str have "expand_term L t firstLen term buf values =
               Inr ((if length buf \<noteq> firstLen then buf @ sep t else buf)
                    @ (if named t then name term @ (if r = [] then ifemp t else ''='') else [])
                    @ escape r (allowReserved t), None)"
    by (simp add: b1_def)
  moreover have "0 < n \<and> n < int (length s) \<longrightarrow> r = take (nat n) s"
    by (simp add: r_def)
  moreover have "int (length s) \<le> n \<or> n = 0 \<longrightarrow> r = s"
    by (auto simp add: r_def)
  ultimately show ?thesis by blast
qed

lemma scalar_truncation_example:
  "map_index [(''x'', VString ''abcdef'')] (name (zero_term\<lparr>name := ''x'', truncate' := 3\<rparr>))
     = Some (VString ''abcdef'')
   \<and> scalar_form sample_lib (VString ''abcdef'') = Some ''abcdef''
   \<and> truncate' (zero_term\<lparr>name := ''x'', truncate' := 3\<rparr>) = 3
   \<and> expand_term sample_lib (zero_part\<lparr>sep := '',''\<rparr>) 0
        (zero_term\<lparr>name := ''x'', truncate' := 3\<rparr>) [] [(''x'', VString ''abcdef'')]
      = Inr (''abc'', None)"
proof -
  let ?X = "zero_term\<lparr>name := ''x'', truncate' := 3\<rparr>"
  have 1: "map_index [(''x'', VString ''abcdef'')] (name ?X) = Some (VString ''abcdef'')"
    by (simp add: map_index_def zero_term_def)
  have 2: "scalar_form sample_lib (VString ''abcdef'') = Some ''abcdef''"
    by (simp add: scalar_form_def)
  have 3: "truncate' ?X = 3" by (simp add: zero_term_def)
  have 4: "escape ''abc'' False = ''abc''" by (simp add: expand_eval)
  from scalar_truncation [OF 1 2 3, of "zero_part\<lparr>sep := '',''\<rparr>" 0 "[]"] 1 2 3 4
  show ?thesis by (auto simp add: zero_part_def)
qed

text \<open>
  Claim C6. The claim is that a scalar value of more than \<open>n\<close> characters is rendered
  as its first \<open>n\<close> characters, and a value of at most \<open>n\<close> characters unchanged. The
  code compares \<open>len(s)\<close> and cuts \<open>s[:n]\<close>, which count bytes. The string of the one
  character U+00E9 (the bytes C3 A9) with \<open>n = 1\<close> is rendered as its first byte, half a
  character, where its first character is the whole string; and the string of two such
  characters with \<open>n = 3\<close>, which has no more than three characters, is cut after three
  of its four bytes.
\<close>

theorem Expand_truncation_splits_character:
  "Expand L ''{x:1}'' [(''x'', VString [CHR 0xC3, CHR 0xA9])] = Inr (''%C3'', None)
   \<and> escape (first_chars 1 [CHR 0xC3, CHR 0xA9]) False = ''%C3%A9''
   \<and> Expand L ''{x:3}'' [(''x'', VString [CHR 0xC3, CHR 0xA9, CHR 0xC3, CHR 0xA9])]
       = Inr (''%C3%A9%C3'', None)
   \<and> first_chars 3 [CHR 0xC3, CHR 0xA9, CHR 0xC3, CHR 0xA9]
       = [CHR 0xC3, CHR 0xA9, CHR 0xC3, CHR 0xA9]"
proof -
  have p1: "Parse ''{x:1}'' =
      Inr (Some \<lparr>template_raw = ''{x:1}'',
                 parts = [zero_part,
                          zero_part\<lparr>terms := [zero_term\<lparr>name := ''x'', truncate' := 1\<rparr>],
                                     sep := '',''\<rparr>,
                          zero_part]\<rparr>, None)"
    by (simp add: parse_eval)
  have p3: "Parse ''{x:3}'' =
      Inr (Some \<lparr>template_raw = ''{x:3}'',
                 parts = [zero_part,
                          zero_part\<lparr>terms := [zero_term\<lparr>name := ''x'', truncate' := 3\<rparr>],
                                     sep := '',''\<rparr>,
                          zero_part]\<rparr>, None)"
    by (simp add: parse_eval)
  have 1: "Expand L ''{x:1}'' [(''x'', VString [CHR 0xC3, CHR 0xA9])] = Inr (''%C3'', None)"
    using p1 by (simp add: expand_eval)
  have 2: "escape (first_chars 1 [CHR 0xC3, CHR 0xA9]) False = ''%C3%A9''"
    by (simp add: expand_eval)
  have 3: "Expand L ''{x:3}'' [(''x'', VString [CHR 0xC3, CHR 0xA9, CHR 0xC3, CHR 0xA9])]
             = Inr (''%C3%A9%C3'', None)"
    using p3 by (simp add: expand_eval)
  have 4: "first_chars 3 [CHR 0xC3, CHR 0xA9, CHR 0xC3, CHR 0xA9]
             = [CHR 0xC3, CHR 0xA9, CHR 0xC3, CHR 0xA9]"
    by (simp add: numeral_3_eq_3 DecodeRune_width_def)
  from 1 2 3 4 show ?thesis by simp
qed

text \<open>
  Claim C9. When \<open>Parse\<close> returns an error, the template it returns is \<open>nil\<close>; when
  \<open>Template.Expand\<close> returns an error, the string it returns is empty. The first error
  ends the operation: what follows the failing expression in the template text does not
  change the error of \<open>Parse\<close>, and when a part of a template fails to expand after the
  parts before it have expanded, \<open>Template.Expand\<close> returns the error of that part,
  whatever parts follow.
\<close>

theorem errors_are_atomic:
  "(Parse tpl = Inr (tmpl, Some e) \<longrightarrow>
      tmpl = None \<and> Parse (tpl @ CHR ''{'' # rest) = Inr (None, Some e))
   \<and> (Template_Expand L t v = Inr (s, Some e) \<longrightarrow> s = [])
   \<and> (parts t = ps @ p # qs \<and> Expand_parts L ps [] env = Inr (buf, None)
        \<and> expand L p buf env = Inr (b, Some e) \<longrightarrow>
      Template_Expand L t (VMap env) = Inr ([], Some e))"
proof (intro conjI impI)
  assume a: "Parse tpl = Inr (tmpl, Some e)"
  then show "tmpl = None"
    by (auto simp add: Parse_def Let_def split: sum.splits prod.splits if_splits)
  from a obtain r where
    "Parse_loop 0 (Split tpl (CHR ''{''))
       (replicate (length (Split tpl (CHR ''{'')) * 2 - 1) zero_part) = Inr (r, Some e)"
    by (auto simp add: Parse_def Let_def split: sum.splits prod.splits if_splits)
  from Parse_loop_error_prefix [OF this] obtain r' where
    "Parse_loop 0 (Split tpl (CHR ''{'') @ Split rest (CHR ''{''))
       (replicate (length (Split tpl (CHR ''{'') @ Split rest (CHR ''{'')) * 2 - 1) zero_part)
     = Inr (r', Some e)"
    by blast
  then show "Parse (tpl @ CHR ''{'' # rest) = Inr (None, Some e)"
    by (simp add: Parse_def Let_def Split_append_sep)
next
  assume "Template_Expand L t v = Inr (s, Some e)"
  then show "s = []"
    by (cases v)
       (auto simp add: Template_Expand_def dest: Expand_parts_error_empty
          split: sum.splits option.splits)
next
  assume "parts t = ps @ p # qs \<and> Expand_parts L ps [] env = Inr (buf, None)
        \<and> expand L p buf env = Inr (b, Some e)"
  then show "Template_Expand L t (VMap env) = Inr ([], Some e)"
    by (simp add: Template_Expand_def Expand_parts_error)
qed

theorem errors_are_atomic_witness:
  "Parse ''a}'' = Inr (None, Some ''unexpected }'')
   \<and> Parse ''a}{x}'' = Inr (None, Some ''unexpected }'')
   \<and> Template_Expand sample_lib
        \<lparr>template_raw = ''a{x:3}b'',
           parts = [zero_part\<lparr>raw := ''a''\<rparr>,
                    zero_part\<lparr>terms := [zero_term\<lparr>name := ''x'', truncate' := 3\<rparr>], sep := '',''\<rparr>,
                    zero_part\<lparr>raw := ''b''\<rparr>]\<rparr>
        (VMap [(''x'', VMap [(''k'', VString ''v'')])])
      = Inr ([], Some ''cannot truncate a map expansion'')"
proof -
  let ?P = "zero_part\<lparr>terms := [zero_term\<lparr>name := ''x'', truncate' := 3\<rparr>], sep := '',''\<rparr>"
  let ?T = "\<lparr>template_raw = ''a{x:3}b'',
             parts = [zero_part\<lparr>raw := ''a''\<rparr>, ?P, zero_part\<lparr>raw := ''b''\<rparr>]\<rparr>"
  let ?V = "[(''x'', VMap [(''k'', VString ''v'')])]"
  have 1: "Parse ''a}'' = Inr (None, Some ''unexpected }'')"
    by (simp add: parse_eval)
  have 2: "parts ?T = [zero_part\<lparr>raw := ''a''\<rparr>] @ ?P # [zero_part\<lparr>raw := ''b''\<rparr>]
           \<and> Expand_parts sample_lib [zero_part\<lparr>raw := ''a''\<rparr>] [] ?V = Inr (''a'', None)
           \<and> expand sample_lib ?P ''a'' ?V
               = Inr (''a'', Some ''cannot truncate a map expansion'')"
    by (simp add: expand_def expand_term_def map_index_def zero_part_def zero_term_def)
  from errors_are_atomic [where tpl = "''a}''" and tmpl = None and e = "''unexpected }''"
      and rest = "''x}''"] 1
  have 3: "Parse ''a}{x}'' = Inr (None, Some ''unexpected }'')" by simp
  from errors_are_atomic [where t = ?T and ps = "[zero_part\<lparr>raw := ''a''\<rparr>]" and p = ?P
      and qs = "[zero_part\<lparr>raw := ''b''\<rparr>]" and L = sample_lib and env = ?V
      and buf = "''a''" and b = "''a''" and e = "''cannot truncate a map expansion''"] 2
  have 4: "Template_Expand sample_lib ?T (VMap ?V)
             = Inr ([], Some ''cannot truncate a map expansion'')"
    by blast
  from 1 3 4 show ?thesis by simp
qed

end
